theory Spec2Isabelle
  imports Main "HOL-Library.Word"
begin

section \<open>The host runtime\<close>

text \<open>
  The module \<^verbatim>\<open>mod.ts\<close> is glue around the Deno runtime: it reads
  \<^verbatim>\<open>Deno.build.os\<close>, runs external programs through \<^verbatim>\<open>Deno.Command\<close>,
  and converts text with \<^verbatim>\<open>TextEncoder\<close> and \<^verbatim>\<open>TextDecoder\<close>. The
  runtime is a parameter of the model. Every call the module makes to it is appended to
  a history, and the runtime's answer to a call may depend on the whole history before
  it, so two identical calls need not be answered alike.

  A JavaScript string is modelled as a \<^typ>\<open>string\<close>, one \<^typ>\<open>char\<close> for one
  code unit; the module only ever compares code units with carriage return and line
  feed and concatenates strings. A \<^verbatim>\<open>Uint8Array\<close> is a list of 8-bit words.
\<close>

datatype OperatingSystem =
  windows | linux | darwin | freebsd | netbsd | aix | solaris | illumos

text \<open>The string a value of the union type is, as a template literal prints it.\<close>

fun os_name :: "OperatingSystem \<Rightarrow> string" where
  "os_name windows = ''windows''"
| "os_name linux = ''linux''"
| "os_name darwin = ''darwin''"
| "os_name freebsd = ''freebsd''"
| "os_name netbsd = ''netbsd''"
| "os_name aix = ''aix''"
| "os_name solaris = ''solaris''"
| "os_name illumos = ''illumos''"

text \<open>
  What a \<^verbatim>\<open>throw\<close> or a rejected promise carries: an object for which
  \<^verbatim>\<open>instanceof Error\<close> holds, with the name of its class and its
  \<^verbatim>\<open>message\<close>, or any other value, given by what \<^verbatim>\<open>String(...)\<close>
  makes of it.
\<close>

datatype thrown = Error string string | NonError string

definition new_Error :: "string \<Rightarrow> thrown" where
  "new_Error msg = Error ''Error'' msg"

type_synonym Uint8Array = "8 word list"

datatype Stdio = Piped | Inherit | Null

text \<open>
  \<^verbatim>\<open>new Deno.Command(program, {args, stdin, stdout, stderr})\<close>. The program is
  element 0 of an array, which is \<^verbatim>\<open>undefined\<close> (here \<^const>\<open>None\<close>) when
  the array is empty; an option the source leaves out is \<^const>\<open>None\<close>.
\<close>

record Command =
  program :: "string option"
  args :: "string list"
  opt_stdin :: "Stdio option"
  opt_stdout :: "Stdio option"
  opt_stderr :: "Stdio option"

record CommandOutput =
  code :: int
  stdout :: Uint8Array
  stderr :: Uint8Array

text \<open>The calls the module makes to the runtime, in the order it makes them.\<close>

datatype call =
    Output Command
  | Spawn Command
  | GetWriter
  | Write Uint8Array
  | Close
  | Status
  | Warn string

type_synonym history = "call list"

record Deno =
  build_os :: OperatingSystem
  command_output :: "history \<Rightarrow> Command \<Rightarrow> thrown + CommandOutput"
  command_spawn :: "history \<Rightarrow> Command \<Rightarrow> thrown + unit"
  stdin_getWriter :: "history \<Rightarrow> thrown + unit"
  writer_write :: "history \<Rightarrow> Uint8Array \<Rightarrow> thrown + unit"
  writer_close :: "history \<Rightarrow> thrown + unit"
  child_status :: "history \<Rightarrow> thrown + int"
  encoder_encode :: "string \<Rightarrow> Uint8Array"
  decoder_decode :: "Uint8Array \<Rightarrow> string"

section \<open>commandExists\<close>

text \<open>
  The probe runs \<^verbatim>\<open>where\<close> on Windows and \<^verbatim>\<open>which\<close> elsewhere, with both
  output streams discarded, inside a \<^verbatim>\<open>try\<close> whose \<^verbatim>\<open>catch\<close> returns
  \<^verbatim>\<open>false\<close>. The result type keeps the possibility of a rejected promise.
\<close>

definition checkCommand :: "Deno \<Rightarrow> string \<Rightarrow> Command" where
  "checkCommand rt command =
     (if build_os rt = windows
      then \<lparr>program = Some ''where'', args = [command], opt_stdin = None,
            opt_stdout = Some Null, opt_stderr = Some Null\<rparr>
      else \<lparr>program = Some ''which'', args = [command], opt_stdin = None,
            opt_stdout = Some Null, opt_stderr = Some Null\<rparr>)"

definition commandExists :: "Deno \<Rightarrow> string \<Rightarrow> history \<Rightarrow> (thrown + bool) \<times> history" where
  "commandExists rt command h =
     (case command_output rt h (checkCommand rt command) of
        Inr out \<Rightarrow> (Inr (code out = 0), h @ [Output (checkCommand rt command)])
      | Inl _ \<Rightarrow> (Inr False, h @ [Output (checkCommand rt command)]))"

section \<open>ClipboardImplementation\<close>

record ClipboardImplementation =
  os :: OperatingSystem
  readCommand :: "string list"
  writeCommand :: "string list"
  postProcess :: "(string \<Rightarrow> string) option"

definition new_ClipboardImplementation ::
  "OperatingSystem \<Rightarrow> string list \<Rightarrow> string list \<Rightarrow> (string \<Rightarrow> string) option
     \<Rightarrow> ClipboardImplementation" where
  "new_ClipboardImplementation os' readCommand' writeCommand' postProcess' =
     \<lparr>os = os', readCommand = readCommand', writeCommand = writeCommand',
      postProcess = postProcess'\<rparr>"

text \<open>\<^verbatim>\<open>xs[0]\<close>: \<^verbatim>\<open>undefined\<close> on an empty array.\<close>

fun element0 :: "'a list \<Rightarrow> 'a option" where
  "element0 [] = None"
| "element0 (x # _) = Some x"

text \<open>
  The two \<^verbatim>\<open>catch\<close> clauses. The source writes the same text in both methods.
\<close>

fun readText_catch :: "thrown \<Rightarrow> thrown" where
  "readText_catch (Error _ msg) = new_Error (''Failed to read from clipboard: '' @ msg)"
| "readText_catch (NonError s) = new_Error (''Failed to read from clipboard: '' @ s)"

fun writeText_catch :: "thrown \<Rightarrow> thrown" where
  "writeText_catch (Error _ msg) = new_Error (''Failed to read from clipboard: '' @ msg)"
| "writeText_catch (NonError s) = new_Error (''Failed to read from clipboard: '' @ s)"

definition readText_command :: "ClipboardImplementation \<Rightarrow> Command" where
  "readText_command self =
     \<lparr>program = element0 (readCommand self), args = drop 1 (readCommand self),
      opt_stdin = None, opt_stdout = Some Piped, opt_stderr = Some Piped\<rparr>"

definition ClipboardImplementation_readText ::
  "Deno \<Rightarrow> ClipboardImplementation \<Rightarrow> history \<Rightarrow> (thrown + string) \<times> history" where
  "ClipboardImplementation_readText rt self h =
     (case command_output rt h (readText_command self) of
        Inr out \<Rightarrow>
          (let text = decoder_decode rt (stdout out) in
           (Inr (case postProcess self of Some f \<Rightarrow> f text | None \<Rightarrow> text),
            h @ [Output (readText_command self)]))
      | Inl error \<Rightarrow> (Inl (readText_catch error), h @ [Output (readText_command self)]))"

definition writeText_command :: "ClipboardImplementation \<Rightarrow> Command" where
  "writeText_command self =
     \<lparr>program = element0 (writeCommand self), args = drop 1 (writeCommand self),
      opt_stdin = Some Piped, opt_stdout = None, opt_stderr = Some Piped\<rparr>"

text \<open>
  The body of the \<^verbatim>\<open>try\<close> of \<^verbatim>\<open>writeText\<close>: five runtime calls in a row,
  the first that throws ends the body.
\<close>

definition writeText_try ::
  "Deno \<Rightarrow> ClipboardImplementation \<Rightarrow> string \<Rightarrow> history \<Rightarrow> (thrown + unit) \<times> history" where
  "writeText_try rt self data h =
     (let h1 = h @ [Spawn (writeText_command self)] in
      case command_spawn rt h (writeText_command self) of
        Inl e \<Rightarrow> (Inl e, h1)
      | Inr _ \<Rightarrow>
     (let h2 = h1 @ [GetWriter] in
      case stdin_getWriter rt h1 of
        Inl e \<Rightarrow> (Inl e, h2)
      | Inr _ \<Rightarrow>
     (let h3 = h2 @ [Write (encoder_encode rt data)] in
      case writer_write rt h2 (encoder_encode rt data) of
        Inl e \<Rightarrow> (Inl e, h3)
      | Inr _ \<Rightarrow>
     (let h4 = h3 @ [Close] in
      case writer_close rt h3 of
        Inl e \<Rightarrow> (Inl e, h4)
      | Inr _ \<Rightarrow>
     (let h5 = h4 @ [Status] in
      case child_status rt h4 of
        Inl e \<Rightarrow> (Inl e, h5)
      | Inr _ \<Rightarrow> (Inr (), h5))))))"

definition ClipboardImplementation_writeText ::
  "Deno \<Rightarrow> ClipboardImplementation \<Rightarrow> string \<Rightarrow> history \<Rightarrow> (thrown + unit) \<times> history" where
  "ClipboardImplementation_writeText rt self data h =
     (case writeText_try rt self data h of
        (Inl error, h') \<Rightarrow> (Inl (writeText_catch error), h')
      | (Inr _, h') \<Rightarrow> (Inr (), h'))"

section \<open>getImplementations\<close>

text \<open>
  The Windows entry's \<^verbatim>\<open>postProcess\<close> is
  \<^verbatim>\<open>(data) => data.replace(/\r/g, "").replace(/\n$/, "")\<close>. The first
  \<^verbatim>\<open>replace\<close> has the global flag and deletes every match; the second has no
  flag, so \<^verbatim>\<open>$\<close> is the end of the input and the first match, scanning from
  the left, is deleted.
\<close>

definition CR :: char where "CR = CHR 0x0D"
definition LF :: char where "LF = CHR 0x0A"

fun replace_CR_global :: "string \<Rightarrow> string" where
  "replace_CR_global [] = []"
| "replace_CR_global (c # cs) =
     (if c = CR then replace_CR_global cs else c # replace_CR_global cs)"

fun replace_LF_at_end :: "string \<Rightarrow> string" where
  "replace_LF_at_end [] = []"
| "replace_LF_at_end (c # cs) =
     (if c = LF \<and> cs = [] then cs else c # replace_LF_at_end cs)"

definition windows_postProcess :: "string \<Rightarrow> string" where
  "windows_postProcess data = replace_LF_at_end (replace_CR_global data)"

type_synonym ClipboardMap = "OperatingSystem \<rightharpoonup> ClipboardImplementation"

text \<open>
  The object literal evaluates \<^verbatim>\<open>await commandExists("xsel")\<close> twice, once for
  the read command and once for the write command of the Linux entry.
\<close>

definition getImplementations :: "Deno \<Rightarrow> history \<Rightarrow> (thrown + ClipboardMap) \<times> history" where
  "getImplementations rt h =
     (case commandExists rt ''xsel'' h of
        (Inl e, h1) \<Rightarrow> (Inl e, h1)
      | (Inr b1, h1) \<Rightarrow>
     (case commandExists rt ''xsel'' h1 of
        (Inl e, h2) \<Rightarrow> (Inl e, h2)
      | (Inr b2, h2) \<Rightarrow>
          (Inr [linux \<mapsto> new_ClipboardImplementation linux
                  (if b1 then [''xsel'', ''-b'', ''-o'']
                   else [''xclip'', ''-selection'', ''clipboard'', ''-o''])
                  (if b2 then [''xsel'', ''-b'', ''-i'']
                   else [''xclip'', ''-selection'', ''clipboard'', ''-i''])
                  None,
                darwin \<mapsto> new_ClipboardImplementation darwin [''pbpaste''] [''pbcopy''] None,
                windows \<mapsto> new_ClipboardImplementation windows
                  [''powershell'', ''-noprofile'', ''-command'', ''Get-Clipboard'']
                  [''powershell'', ''-noprofile'', ''-command'', ''$input|Set-Clipboard'']
                  (Some windows_postProcess)],
           h2)))"

section \<open>Clipboard\<close>

record Clipboard =
  impl :: ClipboardImplementation

definition new_Clipboard :: "OperatingSystem \<Rightarrow> ClipboardMap \<Rightarrow> thrown + Clipboard" where
  "new_Clipboard os' implementations =
     (case implementations os' of
        None \<Rightarrow> Inl (new_Error (''Clipboard: unsupported OS: '' @ os_name os'))
      | Some i \<Rightarrow> Inr \<lparr>impl = i\<rparr>)"

definition Clipboard_readText ::
  "Deno \<Rightarrow> Clipboard \<Rightarrow> history \<Rightarrow> (thrown + string) \<times> history" where
  "Clipboard_readText rt self h = ClipboardImplementation_readText rt (impl self) h"

definition Clipboard_writeText ::
  "Deno \<Rightarrow> Clipboard \<Rightarrow> string \<Rightarrow> history \<Rightarrow> (thrown + unit) \<times> history" where
  "Clipboard_writeText rt self data h = ClipboardImplementation_writeText rt (impl self) data h"

section \<open>The module's bindings and its load-time block\<close>

text \<open>
  \<^verbatim>\<open>let clipboard, readText, writeText\<close> are declared without a value and exported.
  \<^verbatim>\<open>readText\<close> and \<^verbatim>\<open>writeText\<close> are later bound to the methods of the
  facade; a bound method is given here by the object it is bound to.
\<close>

record Module =
  clipboard :: "Clipboard option"
  readText :: "Clipboard option"
  writeText :: "Clipboard option"

definition initial_Module :: Module where
  "initial_Module = \<lparr>clipboard = None, readText = None, writeText = None\<rparr>"

text \<open>
  The asynchronous block run at load time. Nothing awaits or catches its promise; the
  first component of the result is how that promise settles.
\<close>

definition module_init :: "Deno \<Rightarrow> Module \<Rightarrow> history \<Rightarrow> (thrown + unit) \<times> Module \<times> history" where
  "module_init rt m h =
     (case getImplementations rt h of
        (Inl e, h1) \<Rightarrow> (Inl e, m, h1)
      | (Inr implementations, h1) \<Rightarrow>
          (let h2 = (if implementations (build_os rt) = None
                     then h1 @ [Warn (''Clipboard support not available for '' @ os_name (build_os rt))]
                     else h1)
           in case new_Clipboard (build_os rt) implementations of
                Inl e \<Rightarrow> (Inl e, m, h2)
              | Inr c \<Rightarrow>
                  (Inr (), \<lparr>clipboard = Some c, readText = Some c, writeText = Some c\<rparr>, h2)))"

text \<open>
  A caller's \<^verbatim>\<open>readText()\<close> and \<^verbatim>\<open>writeText(data)\<close> through the exported
  bindings. Calling a binding that is still \<^verbatim>\<open>undefined\<close> throws a
  \<^verbatim>\<open>TypeError\<close>.
\<close>

definition call_readText :: "Deno \<Rightarrow> Module \<Rightarrow> history \<Rightarrow> (thrown + string) \<times> history" where
  "call_readText rt m h =
     (case readText m of
        None \<Rightarrow> (Inl (Error ''TypeError'' ''readText is not a function''), h)
      | Some c \<Rightarrow> Clipboard_readText rt c h)"

definition call_writeText :: "Deno \<Rightarrow> Module \<Rightarrow> string \<Rightarrow> history \<Rightarrow> (thrown + unit) \<times> history" where
  "call_writeText rt m data h =
     (case writeText m of
        None \<Rightarrow> (Inl (Error ''TypeError'' ''writeText is not a function''), h)
      | Some c \<Rightarrow> Clipboard_writeText rt c data h)"

section \<open>Example hosts\<close>

text \<open>
  A host on which exactly the programs of \<open>installed\<close> can be run. \<^verbatim>\<open>which\<close>
  and \<^verbatim>\<open>where\<close> exit with 0 when their argument is installed and with 1
  otherwise; an installed program exits with \<open>exit_code\<close> after printing
  \<open>printed\<close>; running anything else throws \<^verbatim>\<open>NotFound\<close>. Its encoder and
  decoder map a code unit to the byte of the same number, which is UTF-8 on ASCII text.
\<close>

definition example_output ::
  "string list \<Rightarrow> int \<Rightarrow> Uint8Array \<Rightarrow> history \<Rightarrow> Command \<Rightarrow> thrown + CommandOutput" where
  "example_output installed exit_code printed h c =
     (case program c of
        None \<Rightarrow> Inl (Error ''TypeError'' ''expected a string'')
      | Some p \<Rightarrow>
          if p = ''which'' \<or> p = ''where''
          then Inr \<lparr>code = (if set (args c) \<subseteq> set installed then 0 else 1),
                    stdout = [], stderr = []\<rparr>
          else if p \<in> set installed
          then Inr \<lparr>code = exit_code, stdout = printed, stderr = []\<rparr>
          else Inl (Error ''NotFound'' ''entity not found''))"

definition example_spawn :: "string list \<Rightarrow> history \<Rightarrow> Command \<Rightarrow> thrown + unit" where
  "example_spawn installed h c =
     (case program c of
        None \<Rightarrow> Inl (Error ''TypeError'' ''expected a string'')
      | Some p \<Rightarrow>
          if p \<in> set installed then Inr () else Inl (Error ''NotFound'' ''entity not found''))"

definition example_host :: "OperatingSystem \<Rightarrow> string list \<Rightarrow> int \<Rightarrow> Uint8Array \<Rightarrow> Deno" where
  "example_host sys installed exit_code printed =
     \<lparr>build_os = sys,
      command_output = example_output installed exit_code printed,
      command_spawn = example_spawn installed,
      stdin_getWriter = (\<lambda>h. Inr ()),
      writer_write = (\<lambda>h b. Inr ()),
      writer_close = (\<lambda>h. Inr ()),
      child_status = (\<lambda>h. Inr exit_code),
      encoder_encode = map (\<lambda>c. of_nat (of_char c)),
      decoder_decode = map (\<lambda>b. char_of (unat b))\<rparr>"

section \<open>Helper lemmas\<close>

text \<open>
  The probe always resolves with a boolean and records one call, so building the registry
  always resolves too, after exactly two probes of \<^verbatim>\<open>xsel\<close>.
\<close>

lemma commandExists_returns:
  "\<exists>b. commandExists rt command h = (Inr b, h @ [Output (checkCommand rt command)])"
  by (auto simp add: commandExists_def split: sum.split)

lemma getImplementations_returns:
  "\<exists>m. getImplementations rt h =
         (Inr m, h @ [Output (checkCommand rt ''xsel''), Output (checkCommand rt ''xsel'')])"
  using commandExists_returns[of rt "''xsel''" h]
    commandExists_returns[of rt "''xsel''" "h @ [Output (checkCommand rt ''xsel'')]"]
  by (auto simp add: getImplementations_def)

text \<open>
  The registry has exactly the three entries of the object literal. The read command of
  the Linux entry follows the first probe and its write command the second.
\<close>

lemma getImplementations_entries:
  assumes "fst (getImplementations rt h) = Inr m"
  shows "\<exists>b1 b2.
     fst (commandExists rt ''xsel'' h) = Inr b1 \<and>
     fst (commandExists rt ''xsel'' (h @ [Output (checkCommand rt ''xsel'')])) = Inr b2 \<and>
     m = [linux \<mapsto> new_ClipboardImplementation linux
                  (if b1 then [''xsel'', ''-b'', ''-o'']
                   else [''xclip'', ''-selection'', ''clipboard'', ''-o''])
                  (if b2 then [''xsel'', ''-b'', ''-i'']
                   else [''xclip'', ''-selection'', ''clipboard'', ''-i''])
                  None,
          darwin \<mapsto> new_ClipboardImplementation darwin [''pbpaste''] [''pbcopy''] None,
          windows \<mapsto> new_ClipboardImplementation windows
                  [''powershell'', ''-noprofile'', ''-command'', ''Get-Clipboard'']
                  [''powershell'', ''-noprofile'', ''-command'', ''$input|Set-Clipboard'']
                  (Some windows_postProcess)]"
proof -
  obtain b1 where b1: "commandExists rt ''xsel'' h = (Inr b1, h @ [Output (checkCommand rt ''xsel'')])"
    using commandExists_returns by blast
  obtain b2 where b2: "commandExists rt ''xsel'' (h @ [Output (checkCommand rt ''xsel'')]) =
      (Inr b2, (h @ [Output (checkCommand rt ''xsel'')]) @ [Output (checkCommand rt ''xsel'')])"
    using commandExists_returns by blast
  from assms b1 b2 show ?thesis
    by (simp add: getImplementations_def)
qed

text \<open>
  The two \<^verbatim>\<open>replace\<close> calls of the Windows post-processing: the first is a
  filter, the second drops a final line feed and nothing else.
\<close>

lemma replace_CR_global_filter: "replace_CR_global s = filter (\<lambda>c. c \<noteq> CR) s"
  by (induction s) auto

lemma replace_LF_at_end_snoc: "replace_LF_at_end (t @ [LF]) = t"
  by (induction t) auto

lemma replace_LF_at_end_id: "s = [] \<or> last s \<noteq> LF \<Longrightarrow> replace_LF_at_end s = s"
  by (induction s) (auto split: if_splits)

text \<open>
  The \<^verbatim>\<open>catch\<close> of \<^verbatim>\<open>writeText\<close> keeps the message of an
  \<^verbatim>\<open>Error\<close>, or the string form of any other value, behind the fixed prefix.
\<close>

lemma writeText_catch_prefix:
  "\<exists>cause. writeText_catch e = new_Error (''Failed to read from clipboard: '' @ cause) \<and>
     (e = NonError cause \<or> (\<exists>n. e = Error n cause))"
  by (cases e) auto

text \<open>
  What the \<^verbatim>\<open>try\<close> body of \<^verbatim>\<open>writeText\<close> yields, call by call, and the
  history it leaves when no call throws.
\<close>

lemma writeText_try_failures:
  "fst (writeText_try rt self data h) =
     (let c = writeText_command self; b = encoder_encode rt data in
      case command_spawn rt h c of Inl e \<Rightarrow> Inl e | Inr _ \<Rightarrow>
      case stdin_getWriter rt (h @ [Spawn c]) of Inl e \<Rightarrow> Inl e | Inr _ \<Rightarrow>
      case writer_write rt (h @ [Spawn c, GetWriter]) b of Inl e \<Rightarrow> Inl e | Inr _ \<Rightarrow>
      case writer_close rt (h @ [Spawn c, GetWriter, Write b]) of Inl e \<Rightarrow> Inl e | Inr _ \<Rightarrow>
      case child_status rt (h @ [Spawn c, GetWriter, Write b, Close]) of Inl e \<Rightarrow> Inl e | Inr _ \<Rightarrow> Inr ())"
  by (simp add: writeText_try_def Let_def split: sum.splits)

lemma writeText_try_history:
  "writeText_try rt self data h = (Inr u, h') \<Longrightarrow>
     h' = h @ [Spawn (writeText_command self), GetWriter, Write (encoder_encode rt data), Close, Status]"
  by (simp add: writeText_try_def Let_def split: sum.splits)

text \<open>
  \<^verbatim>\<open>writeText\<close> succeeds exactly when its \<^verbatim>\<open>try\<close> body does, and otherwise
  fails with what the \<^verbatim>\<open>catch\<close> makes of the thrown value; the two
  \<^verbatim>\<open>catch\<close> clauses of the class agree.
\<close>

lemma writeText_result:
  "fst (ClipboardImplementation_writeText rt self data h) =
     (case fst (writeText_try rt self data h) of
        Inl e \<Rightarrow> Inl (writeText_catch e)
      | Inr _ \<Rightarrow> Inr ())"
  by (cases "writeText_try rt self data h")
     (simp add: ClipboardImplementation_writeText_def split: sum.splits)

lemma writeText_catch_same: "writeText_catch e = readText_catch e"
  by (cases e) simp_all

section \<open>The load-time block on an unsupported operating system\<close>

text \<open>
  C1, as amended. The claim says that on an operating system without a registry entry
  a warning is emitted instead of an error, the process continues, and every later call of
  the public \<^verbatim>\<open>readText\<close> or \<^verbatim>\<open>writeText\<close> fails with an
  unsupported-OS error. The source does emit the warning, but then constructs the facade
  in the same block, and the constructor throws the unsupported-OS error there, once, at
  load time. The three exported bindings are assigned after the constructor, so they stay
  \<^verbatim>\<open>undefined\<close>: a later call through them throws a \<^verbatim>\<open>TypeError\<close> and
  never reaches the facade.

  Amended statement: when \<^verbatim>\<open>Deno.build.os\<close> is one of freebsd, netbsd, aix,
  solaris and illumos, the load-time block probes \<^verbatim>\<open>xsel\<close> twice, emits the warning
  \<^verbatim>\<open>Clipboard support not available for <os>\<close>, and then fails in the constructor
  with \<^verbatim>\<open>Clipboard: unsupported OS: <os>\<close>, leaving the bindings as they were; a
  later call of \<^verbatim>\<open>readText\<close> or \<^verbatim>\<open>writeText\<close> through the bindings, which
  are still unassigned, fails because the binding is not a function, and makes no call to
  the runtime.
\<close>

theorem unsupported_os_at_load:
  assumes "build_os rt \<in> {freebsd, netbsd, aix, solaris, illumos}"
  shows "module_init rt m h =
           (Inl (new_Error (''Clipboard: unsupported OS: '' @ os_name (build_os rt))), m,
            h @ [Output (checkCommand rt ''xsel''), Output (checkCommand rt ''xsel''),
                 Warn (''Clipboard support not available for '' @ os_name (build_os rt))]) \<and>
         (\<forall>hc. call_readText rt (fst (snd (module_init rt initial_Module h))) hc =
            (Inl (Error ''TypeError'' ''readText is not a function''), hc)) \<and>
         (\<forall>data hc. call_writeText rt (fst (snd (module_init rt initial_Module h))) data hc =
            (Inl (Error ''TypeError'' ''writeText is not a function''), hc))"
proof -
  obtain mp where mp: "getImplementations rt h =
      (Inr mp, h @ [Output (checkCommand rt ''xsel''), Output (checkCommand rt ''xsel'')])"
    using getImplementations_returns[of rt h] by blast
  then have "fst (getImplementations rt h) = Inr mp" by simp
  from getImplementations_entries[OF this] assms have none: "mp (build_os rt) = None"
    by auto
  have load: "module_init rt m' h =
           (Inl (new_Error (''Clipboard: unsupported OS: '' @ os_name (build_os rt))), m',
            h @ [Output (checkCommand rt ''xsel''), Output (checkCommand rt ''xsel''),
                 Warn (''Clipboard support not available for '' @ os_name (build_os rt))])" for m'
    using mp none by (simp add: module_init_def new_Clipboard_def)
  show ?thesis
    by (simp add: load call_readText_def call_writeText_def initial_Module_def)
qed

text \<open>
  On a FreeBSD host the block warns and then fails, and a later \<^verbatim>\<open>writeText\<close>
  throws the \<^verbatim>\<open>TypeError\<close>.
\<close>

theorem unsupported_os_at_load_witness:
  "build_os (example_host freebsd [] 0 []) \<in> {freebsd, netbsd, aix, solaris, illumos} \<and>
   module_init (example_host freebsd [] 0 []) initial_Module [] =
     (Inl (new_Error ''Clipboard: unsupported OS: freebsd''), initial_Module,
      [Output \<lparr>program = Some ''which'', args = [''xsel''], opt_stdin = None,
               opt_stdout = Some Null, opt_stderr = Some Null\<rparr>,
       Output \<lparr>program = Some ''which'', args = [''xsel''], opt_stdin = None,
               opt_stdout = Some Null, opt_stderr = Some Null\<rparr>,
       Warn ''Clipboard support not available for freebsd'']) \<and>
   call_writeText (example_host freebsd [] 0 [])
     (fst (snd (module_init (example_host freebsd [] 0 []) initial_Module []))) ''hi''
     [Warn ''later''] =
     (Inl (Error ''TypeError'' ''writeText is not a function''), [Warn ''later''])"
proof -
  let ?H = "example_host freebsd [] 0 []"
  have h: "build_os ?H \<in> {freebsd, netbsd, aix, solaris, illumos}"
    by (simp add: example_host_def)
  have os: "build_os ?H = freebsd"
    by (simp add: example_host_def)
  have c: "checkCommand ?H ''xsel'' = \<lparr>program = Some ''which'', args = [''xsel''], opt_stdin = None,
               opt_stdout = Some Null, opt_stderr = Some Null\<rparr>"
    by (simp add: checkCommand_def example_host_def)
  note load = unsupported_os_at_load[OF h, of initial_Module "[]"]
  from load have 1: "module_init ?H initial_Module [] =
     (Inl (new_Error ''Clipboard: unsupported OS: freebsd''), initial_Module,
      [Output \<lparr>program = Some ''which'', args = [''xsel''], opt_stdin = None,
               opt_stdout = Some Null, opt_stderr = Some Null\<rparr>,
       Output \<lparr>program = Some ''which'', args = [''xsel''], opt_stdin = None,
               opt_stdout = Some Null, opt_stderr = Some Null\<rparr>,
       Warn ''Clipboard support not available for freebsd''])"
    by (simp add: os c)
  from load have 2: "call_writeText ?H (fst (snd (module_init ?H initial_Module []))) ''hi''
     [Warn ''later''] = (Inl (Error ''TypeError'' ''writeText is not a function''), [Warn ''later''])"
    by blast
  from h 1 2 show ?thesis by blast
qed

text \<open>
  The claim as stated fails on a FreeBSD host: the load-time block itself ends with the
  unsupported-OS error, and the later \<^verbatim>\<open>readText()\<close> fails with a
  \<^verbatim>\<open>TypeError\<close>, which is not the unsupported-OS error.
\<close>

theorem readText_after_unsupported_load_counterexample:
  "fst (module_init (example_host freebsd [] 0 []) initial_Module []) =
     Inl (new_Error ''Clipboard: unsupported OS: freebsd'') \<and>
   fst (call_readText (example_host freebsd [] 0 [])
          (fst (snd (module_init (example_host freebsd [] 0 []) initial_Module [])))
          (snd (snd (module_init (example_host freebsd [] 0 []) initial_Module [])))) =
     Inl (Error ''TypeError'' ''readText is not a function'') \<and>
   fst (call_readText (example_host freebsd [] 0 [])
          (fst (snd (module_init (example_host freebsd [] 0 []) initial_Module [])))
          (snd (snd (module_init (example_host freebsd [] 0 []) initial_Module [])))) \<noteq>
     Inl (new_Error ''Clipboard: unsupported OS: freebsd'')"
  by code_simp

section \<open>Failures of writeText\<close>

text \<open>
  C2. For every input text, whichever of the five runtime calls of \<^verbatim>\<open>writeText\<close>
  throws first (spawning the command, taking the writer, the write to the pipe, closing
  the writer, awaiting the status), \<^verbatim>\<open>writeText\<close> fails with exactly the error the
  \<^verbatim>\<open>catch\<close> of \<^verbatim>\<open>readText\<close> would make of the thrown value: a new
  \<^verbatim>\<open>Error\<close> whose message is \<^verbatim>\<open>Failed to read from clipboard: \<close> followed by
  the cause (the message of the thrown \<^verbatim>\<open>Error\<close>, or the string form of any other
  thrown value). Conversely every failure of \<^verbatim>\<open>writeText\<close> has this form, and its
  cause is what one of the five runtime calls threw. \<^verbatim>\<open>TextEncoder.encode\<close> has no
  failure of its own in the runtime, so the encode case of the claim is empty.
\<close>

theorem writeText_failure_message:
  "(\<forall>e. fst (writeText_try rt self data h) = Inl e \<longrightarrow>
      fst (ClipboardImplementation_writeText rt self data h) = Inl (readText_catch e)) \<and>
   (\<forall>e. command_spawn rt h (writeText_command self) = Inl e \<longrightarrow>
      fst (ClipboardImplementation_writeText rt self data h) = Inl (readText_catch e)) \<and>
   (\<forall>e. command_spawn rt h (writeText_command self) = Inr () \<and>
        stdin_getWriter rt (h @ [Spawn (writeText_command self)]) = Inr () \<and>
        writer_write rt (h @ [Spawn (writeText_command self), GetWriter]) (encoder_encode rt data) = Inl e \<longrightarrow>
      fst (ClipboardImplementation_writeText rt self data h) = Inl (readText_catch e)) \<and>
   (\<forall>t. fst (ClipboardImplementation_writeText rt self data h) = Inl t \<longrightarrow>
      (\<exists>e cause. fst (writeText_try rt self data h) = Inl e \<and>
         (e = NonError cause \<or> (\<exists>n. e = Error n cause)) \<and>
         t = new_Error (''Failed to read from clipboard: '' @ cause))) \<and>
   (\<forall>e. command_spawn rt h (writeText_command self) = Inr () \<and>
        stdin_getWriter rt (h @ [Spawn (writeText_command self)]) = Inl e \<longrightarrow>
      fst (ClipboardImplementation_writeText rt self data h) = Inl (readText_catch e)) \<and>
   (\<forall>e. command_spawn rt h (writeText_command self) = Inr () \<and>
        stdin_getWriter rt (h @ [Spawn (writeText_command self)]) = Inr () \<and>
        writer_write rt (h @ [Spawn (writeText_command self), GetWriter])
          (encoder_encode rt data) = Inr () \<and>
        writer_close rt (h @ [Spawn (writeText_command self), GetWriter,
          Write (encoder_encode rt data)]) = Inl e \<longrightarrow>
      fst (ClipboardImplementation_writeText rt self data h) = Inl (readText_catch e)) \<and>
   (\<forall>e. command_spawn rt h (writeText_command self) = Inr () \<and>
        stdin_getWriter rt (h @ [Spawn (writeText_command self)]) = Inr () \<and>
        writer_write rt (h @ [Spawn (writeText_command self), GetWriter])
          (encoder_encode rt data) = Inr () \<and>
        writer_close rt (h @ [Spawn (writeText_command self), GetWriter,
          Write (encoder_encode rt data)]) = Inr () \<and>
        child_status rt (h @ [Spawn (writeText_command self), GetWriter,
          Write (encoder_encode rt data), Close]) = Inl e \<longrightarrow>
      fst (ClipboardImplementation_writeText rt self data h) = Inl (readText_catch e)) \<and>
   (\<forall>t. fst (ClipboardImplementation_writeText rt self data h) = Inl t \<longrightarrow>
      (\<exists>e cause.
         (command_spawn rt h (writeText_command self) = Inl e \<or>
          stdin_getWriter rt (h @ [Spawn (writeText_command self)]) = Inl e \<or>
          writer_write rt (h @ [Spawn (writeText_command self), GetWriter])
            (encoder_encode rt data) = Inl e \<or>
          writer_close rt (h @ [Spawn (writeText_command self), GetWriter,
            Write (encoder_encode rt data)]) = Inl e \<or>
          child_status rt (h @ [Spawn (writeText_command self), GetWriter,
            Write (encoder_encode rt data), Close]) = Inl e) \<and>
         (e = NonError cause \<or> (\<exists>n. e = Error n cause)) \<and>
         t = new_Error (''Failed to read from clipboard: '' @ cause)))"
proof -
  let ?c = "writeText_command self"
  let ?b = "encoder_encode rt data"
  have wrap: "\<forall>e. fst (writeText_try rt self data h) = Inl e \<longrightarrow>
      fst (ClipboardImplementation_writeText rt self data h) = Inl (readText_catch e)"
    by (simp add: writeText_result writeText_catch_same)
  have spawn: "fst (writeText_try rt self data h) = Inl e"
    if "command_spawn rt h ?c = Inl e" for e
    using that by (simp add: writeText_try_failures)
  have writer: "fst (writeText_try rt self data h) = Inl e"
    if "command_spawn rt h ?c = Inr () \<and> stdin_getWriter rt (h @ [Spawn ?c]) = Inl e" for e
    using that by (simp add: writeText_try_failures)
  have pipe: "fst (writeText_try rt self data h) = Inl e"
    if "command_spawn rt h ?c = Inr () \<and>
        stdin_getWriter rt (h @ [Spawn ?c]) = Inr () \<and>
        writer_write rt (h @ [Spawn ?c, GetWriter]) ?b = Inl e" for e
    using that by (simp add: writeText_try_failures)
  have closing: "fst (writeText_try rt self data h) = Inl e"
    if "command_spawn rt h ?c = Inr () \<and>
        stdin_getWriter rt (h @ [Spawn ?c]) = Inr () \<and>
        writer_write rt (h @ [Spawn ?c, GetWriter]) ?b = Inr () \<and>
        writer_close rt (h @ [Spawn ?c, GetWriter, Write ?b]) = Inl e" for e
    using that by (simp add: writeText_try_failures)
  have waiting: "fst (writeText_try rt self data h) = Inl e"
    if "command_spawn rt h ?c = Inr () \<and>
        stdin_getWriter rt (h @ [Spawn ?c]) = Inr () \<and>
        writer_write rt (h @ [Spawn ?c, GetWriter]) ?b = Inr () \<and>
        writer_close rt (h @ [Spawn ?c, GetWriter, Write ?b]) = Inr () \<and>
        child_status rt (h @ [Spawn ?c, GetWriter, Write ?b, Close]) = Inl e" for e
    using that by (simp add: writeText_try_failures)
  have source: "command_spawn rt h ?c = Inl e \<or>
          stdin_getWriter rt (h @ [Spawn ?c]) = Inl e \<or>
          writer_write rt (h @ [Spawn ?c, GetWriter]) ?b = Inl e \<or>
          writer_close rt (h @ [Spawn ?c, GetWriter, Write ?b]) = Inl e \<or>
          child_status rt (h @ [Spawn ?c, GetWriter, Write ?b, Close]) = Inl e"
    if "fst (writeText_try rt self data h) = Inl e" for e
    using that by (simp add: writeText_try_failures Let_def split: sum.splits)
  have only_try: "\<forall>t. fst (ClipboardImplementation_writeText rt self data h) = Inl t \<longrightarrow>
      (\<exists>e cause. fst (writeText_try rt self data h) = Inl e \<and>
         (e = NonError cause \<or> (\<exists>n. e = Error n cause)) \<and>
         t = new_Error (''Failed to read from clipboard: '' @ cause))"
  proof (cases "fst (writeText_try rt self data h)")
    case (Inl e)
    with writeText_catch_prefix[of e] show ?thesis
      by (auto simp add: writeText_result)
  next
    case (Inr u)
    then show ?thesis
      by (simp add: writeText_result)
  qed
  have only_runtime: "\<forall>t. fst (ClipboardImplementation_writeText rt self data h) = Inl t \<longrightarrow>
      (\<exists>e cause.
         (command_spawn rt h ?c = Inl e \<or>
          stdin_getWriter rt (h @ [Spawn ?c]) = Inl e \<or>
          writer_write rt (h @ [Spawn ?c, GetWriter]) ?b = Inl e \<or>
          writer_close rt (h @ [Spawn ?c, GetWriter, Write ?b]) = Inl e \<or>
          child_status rt (h @ [Spawn ?c, GetWriter, Write ?b, Close]) = Inl e) \<and>
         (e = NonError cause \<or> (\<exists>n. e = Error n cause)) \<and>
         t = new_Error (''Failed to read from clipboard: '' @ cause))"
    using only_try source by blast
  from wrap spawn writer pipe closing waiting only_try only_runtime show ?thesis
    by blast
qed

text \<open>
  Five hosts, one for each call: without \<^verbatim>\<open>xclip\<close> the spawn throws
  \<^verbatim>\<open>NotFound\<close>; on the others the pipe breaks on the write with a value that is
  not an \<^verbatim>\<open>Error\<close>, the writer cannot be taken, the close is rejected, or the
  status is rejected. Each failure comes back with the prefix and its own cause.
\<close>

theorem writeText_failure_message_witness:
  "command_spawn (example_host linux [] 0 []) []
     (writeText_command (new_ClipboardImplementation linux
        [''xclip'', ''-selection'', ''clipboard'', ''-o'']
        [''xclip'', ''-selection'', ''clipboard'', ''-i''] None)) =
     Inl (Error ''NotFound'' ''entity not found'') \<and>
   fst (ClipboardImplementation_writeText (example_host linux [] 0 [])
          (new_ClipboardImplementation linux
             [''xclip'', ''-selection'', ''clipboard'', ''-o'']
             [''xclip'', ''-selection'', ''clipboard'', ''-i''] None) ''hi'' []) =
     Inl (new_Error ''Failed to read from clipboard: entity not found'') \<and>
   fst (ClipboardImplementation_writeText
          ((example_host linux [''xclip''] 0 [])
             \<lparr>writer_write := \<lambda>h b. Inl (NonError ''Broken pipe'')\<rparr>)
          (new_ClipboardImplementation linux
             [''xclip'', ''-selection'', ''clipboard'', ''-o'']
             [''xclip'', ''-selection'', ''clipboard'', ''-i''] None) ''hi'' []) =
     Inl (new_Error ''Failed to read from clipboard: Broken pipe'') \<and>
   fst (ClipboardImplementation_writeText
          ((example_host linux [''xclip''] 0 [])
             \<lparr>stdin_getWriter := \<lambda>h. Inl (Error ''TypeError'' ''stream is locked'')\<rparr>)
          (new_ClipboardImplementation linux
             [''xclip'', ''-selection'', ''clipboard'', ''-o'']
             [''xclip'', ''-selection'', ''clipboard'', ''-i''] None) ''hi'' []) =
     Inl (new_Error ''Failed to read from clipboard: stream is locked'') \<and>
   fst (ClipboardImplementation_writeText
          ((example_host linux [''xclip''] 0 [])
             \<lparr>writer_close := \<lambda>h. Inl (Error ''BrokenPipe'' ''close failed'')\<rparr>)
          (new_ClipboardImplementation linux
             [''xclip'', ''-selection'', ''clipboard'', ''-o'']
             [''xclip'', ''-selection'', ''clipboard'', ''-i''] None) ''hi'' []) =
     Inl (new_Error ''Failed to read from clipboard: close failed'') \<and>
   fst (ClipboardImplementation_writeText
          ((example_host linux [''xclip''] 0 [])
             \<lparr>child_status := \<lambda>h. Inl (NonError ''status lost'')\<rparr>)
          (new_ClipboardImplementation linux
             [''xclip'', ''-selection'', ''clipboard'', ''-o'']
             [''xclip'', ''-selection'', ''clipboard'', ''-i''] None) ''hi'' []) =
     Inl (new_Error ''Failed to read from clipboard: status lost'')"
proof -
  let ?N = "example_host linux [] 0 []"
  let ?P = "(example_host linux [''xclip''] 0 [])
             \<lparr>writer_write := \<lambda>h b. Inl (NonError ''Broken pipe'')\<rparr>"
  let ?G = "(example_host linux [''xclip''] 0 [])
             \<lparr>stdin_getWriter := \<lambda>h. Inl (Error ''TypeError'' ''stream is locked'')\<rparr>"
  let ?C = "(example_host linux [''xclip''] 0 [])
             \<lparr>writer_close := \<lambda>h. Inl (Error ''BrokenPipe'' ''close failed'')\<rparr>"
  let ?S = "(example_host linux [''xclip''] 0 [])
             \<lparr>child_status := \<lambda>h. Inl (NonError ''status lost'')\<rparr>"
  let ?i = "new_ClipboardImplementation linux
        [''xclip'', ''-selection'', ''clipboard'', ''-o'']
        [''xclip'', ''-selection'', ''clipboard'', ''-i''] None"
  have s: "command_spawn ?N [] (writeText_command ?i) = Inl (Error ''NotFound'' ''entity not found'')"
    by code_simp
  have p: "command_spawn ?P [] (writeText_command ?i) = Inr () \<and>
        stdin_getWriter ?P ([] @ [Spawn (writeText_command ?i)]) = Inr () \<and>
        writer_write ?P ([] @ [Spawn (writeText_command ?i), GetWriter]) (encoder_encode ?P ''hi'') =
          Inl (NonError ''Broken pipe'')"
    by code_simp
  have g: "command_spawn ?G [] (writeText_command ?i) = Inr () \<and>
        stdin_getWriter ?G ([] @ [Spawn (writeText_command ?i)]) =
          Inl (Error ''TypeError'' ''stream is locked'')"
    by code_simp
  have c: "command_spawn ?C [] (writeText_command ?i) = Inr () \<and>
        stdin_getWriter ?C ([] @ [Spawn (writeText_command ?i)]) = Inr () \<and>
        writer_write ?C ([] @ [Spawn (writeText_command ?i), GetWriter])
          (encoder_encode ?C ''hi'') = Inr () \<and>
        writer_close ?C ([] @ [Spawn (writeText_command ?i), GetWriter,
          Write (encoder_encode ?C ''hi'')]) = Inl (Error ''BrokenPipe'' ''close failed'')"
    by code_simp
  have w: "command_spawn ?S [] (writeText_command ?i) = Inr () \<and>
        stdin_getWriter ?S ([] @ [Spawn (writeText_command ?i)]) = Inr () \<and>
        writer_write ?S ([] @ [Spawn (writeText_command ?i), GetWriter])
          (encoder_encode ?S ''hi'') = Inr () \<and>
        writer_close ?S ([] @ [Spawn (writeText_command ?i), GetWriter,
          Write (encoder_encode ?S ''hi'')]) = Inr () \<and>
        child_status ?S ([] @ [Spawn (writeText_command ?i), GetWriter,
          Write (encoder_encode ?S ''hi''), Close]) = Inl (NonError ''status lost'')"
    by code_simp
  from writeText_failure_message[of ?N ?i "''hi''" "[]"] s
  have 1: "fst (ClipboardImplementation_writeText ?N ?i ''hi'' []) =
     Inl (readText_catch (Error ''NotFound'' ''entity not found''))"
    by blast
  from writeText_failure_message[of ?P ?i "''hi''" "[]"] p
  have 2: "fst (ClipboardImplementation_writeText ?P ?i ''hi'' []) =
     Inl (readText_catch (NonError ''Broken pipe''))"
    by blast
  from writeText_failure_message[of ?G ?i "''hi''" "[]"] g
  have 3: "fst (ClipboardImplementation_writeText ?G ?i ''hi'' []) =
     Inl (readText_catch (Error ''TypeError'' ''stream is locked''))"
    by blast
  from writeText_failure_message[of ?C ?i "''hi''" "[]"] c
  have 4: "fst (ClipboardImplementation_writeText ?C ?i ''hi'' []) =
     Inl (readText_catch (Error ''BrokenPipe'' ''close failed''))"
    by blast
  from writeText_failure_message[of ?S ?i "''hi''" "[]"] w
  have 5: "fst (ClipboardImplementation_writeText ?S ?i ''hi'' []) =
     Inl (readText_catch (NonError ''status lost''))"
    by blast
  from s 1 2 3 4 5 show ?thesis by simp
qed

section \<open>The Windows post-processing\<close>

text \<open>
  C3. The post-processing function registered in the Windows entry of the registry is
  \<^const>\<open>windows_postProcess\<close>. Its result has no carriage return. With the carriage
  returns removed from the input, if what remains ends with a line feed the result is
  what remains without that one line feed (a line feed before it is kept), and
  otherwise the result is what remains. On \<^verbatim>\<open>"line1\r\nline2\r\n"\<close> the result is
  \<^verbatim>\<open>"line1\nline2"\<close>.
\<close>

theorem windows_postProcess_strips:
  "(\<exists>m i. fst (getImplementations rt h) = Inr m \<and> m windows = Some i \<and>
           postProcess i = Some windows_postProcess) \<and>
   CR \<notin> set (windows_postProcess data) \<and>
   (\<forall>t. filter (\<lambda>c. c \<noteq> CR) data = t @ [LF] \<longrightarrow> windows_postProcess data = t) \<and>
   (filter (\<lambda>c. c \<noteq> CR) data = [] \<or> last (filter (\<lambda>c. c \<noteq> CR) data) \<noteq> LF \<longrightarrow>
      windows_postProcess data = filter (\<lambda>c. c \<noteq> CR) data) \<and>
   windows_postProcess (''line1'' @ [CR, LF] @ ''line2'' @ [CR, LF]) = ''line1'' @ [LF] @ ''line2''"
proof -
  obtain m where m: "fst (getImplementations rt h) = Inr m"
    using getImplementations_returns[of rt h] by auto
  from getImplementations_entries[OF m] m
  have reg: "\<exists>m i. fst (getImplementations rt h) = Inr m \<and> m windows = Some i \<and>
           postProcess i = Some windows_postProcess"
    by (auto simp add: new_ClipboardImplementation_def)
  have snoc: "\<forall>t. filter (\<lambda>c. c \<noteq> CR) data = t @ [LF] \<longrightarrow> windows_postProcess data = t"
    by (simp add: windows_postProcess_def replace_CR_global_filter replace_LF_at_end_snoc)
  have keep: "filter (\<lambda>c. c \<noteq> CR) data = [] \<or> last (filter (\<lambda>c. c \<noteq> CR) data) \<noteq> LF \<longrightarrow>
      windows_postProcess data = filter (\<lambda>c. c \<noteq> CR) data"
    by (simp add: windows_postProcess_def replace_CR_global_filter replace_LF_at_end_id)
  have noCR: "CR \<notin> set (windows_postProcess data)"
  proof (cases "filter (\<lambda>c. c \<noteq> CR) data = [] \<or> last (filter (\<lambda>c. c \<noteq> CR) data) \<noteq> LF")
    case True
    with keep have "windows_postProcess data = filter (\<lambda>c. c \<noteq> CR) data" by blast
    then show ?thesis by simp
  next
    case False
    then obtain t where t: "filter (\<lambda>c. c \<noteq> CR) data = t @ [LF]"
      by (metis append_butlast_last_id)
    with snoc have "windows_postProcess data = t" by blast
    moreover have "CR \<notin> set (filter (\<lambda>c. c \<noteq> CR) data)" by simp
    then have "CR \<notin> set (t @ [LF])" unfolding t .
    ultimately show ?thesis by simp
  qed
  have ex: "windows_postProcess (''line1'' @ [CR, LF] @ ''line2'' @ [CR, LF]) = ''line1'' @ [LF] @ ''line2''"
    by (simp add: windows_postProcess_def CR_def LF_def)
  from reg noCR snoc keep ex show ?thesis by blast
qed

text \<open>
  Of two final line feeds one is kept; a text with no final line feed is returned as it
  is.
\<close>

theorem windows_postProcess_strips_witness:
  "filter (\<lambda>c. c \<noteq> CR) (''a'' @ [LF, CR, LF, CR]) = (''a'' @ [LF]) @ [LF] \<and>
   windows_postProcess (''a'' @ [LF, CR, LF, CR]) = ''a'' @ [LF] \<and>
   last (filter (\<lambda>c. c \<noteq> CR) ''ab'') \<noteq> LF \<and>
   windows_postProcess ''ab'' = ''ab''"
proof -
  have f1: "filter (\<lambda>c. c \<noteq> CR) (''a'' @ [LF, CR, LF, CR]) = (''a'' @ [LF]) @ [LF]"
    by (simp add: CR_def LF_def)
  have f2: "filter (\<lambda>c. c \<noteq> CR) ''ab'' = ''ab''"
    by (simp add: CR_def)
  have l2: "last (filter (\<lambda>c. c \<noteq> CR) ''ab'') \<noteq> LF"
    by (simp add: CR_def LF_def)
  from windows_postProcess_strips[of _ _ "''a'' @ [LF, CR, LF, CR]"] f1
  have 1: "windows_postProcess (''a'' @ [LF, CR, LF, CR]) = ''a'' @ [LF]" by blast
  from windows_postProcess_strips[of _ _ "''ab''"] l2 f2
  have 2: "windows_postProcess ''ab'' = ''ab''" by simp
  from f1 1 l2 2 show ?thesis by blast
qed

section \<open>The existence probe\<close>

text \<open>
  C4. For every command name \<^const>\<open>commandExists\<close> resolves with a boolean and never
  rejects. The boolean is \<^verbatim>\<open>true\<close> exactly when the probing process could be run
  and exited with code 0, and \<^verbatim>\<open>false\<close> exactly when running it threw or it exited
  with another code, which is what the probe of an absent command does. The probing process
  is \<^verbatim>\<open>where\<close> on Windows and \<^verbatim>\<open>which\<close> elsewhere, with the command name as
  its only argument and both output streams discarded.
\<close>

theorem commandExists_never_raises:
  "(\<exists>b. fst (commandExists rt command h) = Inr b) \<and>
   ((fst (commandExists rt command h) = Inr True) =
      (\<exists>out. command_output rt h (checkCommand rt command) = Inr out \<and> code out = 0)) \<and>
   ((fst (commandExists rt command h) = Inr False) =
      ((\<exists>e. command_output rt h (checkCommand rt command) = Inl e) \<or>
       (\<exists>out. command_output rt h (checkCommand rt command) = Inr out \<and> code out \<noteq> 0))) \<and>
   checkCommand rt command =
     \<lparr>program = Some (if build_os rt = windows then ''where'' else ''which''),
      args = [command], opt_stdin = None, opt_stdout = Some Null, opt_stderr = Some Null\<rparr>"
  by (cases "command_output rt h (checkCommand rt command)")
     (auto simp add: commandExists_def checkCommand_def)

text \<open>
  On a Linux host with only \<^verbatim>\<open>xclip\<close> installed the probe finds \<^verbatim>\<open>xclip\<close>
  and not \<^verbatim>\<open>xsel\<close>; on a host that refuses to run any process the probe answers
  \<^verbatim>\<open>false\<close>.
\<close>

theorem commandExists_never_raises_witness:
  "fst (commandExists (example_host linux [''xclip''] 0 []) ''xclip'' []) = Inr True \<and>
   fst (commandExists (example_host linux [''xclip''] 0 []) ''xsel'' []) = Inr False \<and>
   fst (commandExists
          ((example_host windows [] 0 [])
             \<lparr>command_output := \<lambda>h c. Inl (Error ''PermissionDenied'' ''Requires run access'')\<rparr>)
          ''xsel'' []) = Inr False"
proof -
  let ?H = "example_host linux [''xclip''] 0 []"
  let ?D = "(example_host windows [] 0 [])
             \<lparr>command_output := \<lambda>h c. Inl (Error ''PermissionDenied'' ''Requires run access'')\<rparr>"
  have present: "\<exists>out. command_output ?H [] (checkCommand ?H ''xclip'') = Inr out \<and> code out = 0"
    by (simp add: example_host_def example_output_def checkCommand_def)
  have absent: "\<exists>out. command_output ?H [] (checkCommand ?H ''xsel'') = Inr out \<and> code out \<noteq> 0"
    by (simp add: example_host_def example_output_def checkCommand_def)
  have denied: "\<exists>e. command_output ?D [] (checkCommand ?D ''xsel'') = Inl e"
    by simp
  from present commandExists_never_raises[of ?H "''xclip''" "[]"]
  have 1: "fst (commandExists ?H ''xclip'' []) = Inr True" by blast
  from absent commandExists_never_raises[of ?H "''xsel''" "[]"]
  have 2: "fst (commandExists ?H ''xsel'' []) = Inr False" by blast
  from denied commandExists_never_raises[of ?D "''xsel''" "[]"]
  have 3: "fst (commandExists ?D ''xsel'' []) = Inr False" by blast
  from 1 2 3 show ?thesis by blast
qed

section \<open>The Linux entry of the registry\<close>

text \<open>
  C5. Building the registry always succeeds and gives a Linux entry. The source probes
  \<^verbatim>\<open>xsel\<close> once for the read command and once more for the write command: the read
  command is \<^verbatim>\<open>["xsel","-b","-o"]\<close> when the first probe answers \<^verbatim>\<open>true\<close> and
  \<^verbatim>\<open>["xclip","-selection","clipboard","-o"]\<close> otherwise, and the write command is
  \<^verbatim>\<open>["xsel","-b","-i"]\<close> when the second probe answers \<^verbatim>\<open>true\<close> and
  \<^verbatim>\<open>["xclip","-selection","clipboard","-i"]\<close> otherwise. So when \<^verbatim>\<open>xsel\<close> is
  found the entry has the two \<^verbatim>\<open>xsel\<close> forms, and when it is not found the entry
  has the two \<^verbatim>\<open>xclip\<close> forms exactly; both name the clipboard selection
  (\<^verbatim>\<open>-b\<close>, \<^verbatim>\<open>-selection clipboard\<close>).
\<close>

theorem linux_entry_follows_probe:
  "\<exists>m i. fst (getImplementations rt h) = Inr m \<and> m linux = Some i \<and>
     readCommand i =
       (if fst (commandExists rt ''xsel'' h) = Inr True
        then [''xsel'', ''-b'', ''-o'']
        else [''xclip'', ''-selection'', ''clipboard'', ''-o'']) \<and>
     writeCommand i =
       (if fst (commandExists rt ''xsel'' (h @ [Output (checkCommand rt ''xsel'')])) = Inr True
        then [''xsel'', ''-b'', ''-i'']
        else [''xclip'', ''-selection'', ''clipboard'', ''-i''])"
proof -
  obtain m where m: "fst (getImplementations rt h) = Inr m"
    using getImplementations_returns[of rt h] by auto
  from getImplementations_entries[OF m] m show ?thesis
    by (auto simp add: new_ClipboardImplementation_def)
qed

text \<open>
  A Linux host with \<^verbatim>\<open>xsel\<close> gets the \<^verbatim>\<open>xsel\<close> forms, and one with only
  \<^verbatim>\<open>xclip\<close> gets the \<^verbatim>\<open>xclip\<close> forms.
\<close>

theorem linux_entry_follows_probe_witness:
  "(\<exists>m i. fst (getImplementations (example_host linux [''xsel'', ''xclip''] 0 []) []) = Inr m \<and>
      m linux = Some i \<and> readCommand i = [''xsel'', ''-b'', ''-o''] \<and>
      writeCommand i = [''xsel'', ''-b'', ''-i'']) \<and>
   (\<exists>m i. fst (getImplementations (example_host linux [''xclip''] 0 []) []) = Inr m \<and>
      m linux = Some i \<and> readCommand i = [''xclip'', ''-selection'', ''clipboard'', ''-o''] \<and>
      writeCommand i = [''xclip'', ''-selection'', ''clipboard'', ''-i''])"
proof -
  let ?A = "example_host linux [''xsel'', ''xclip''] 0 []"
  let ?B = "example_host linux [''xclip''] 0 []"
  have a1: "fst (commandExists ?A ''xsel'' []) = Inr True"
    by code_simp
  have a2: "fst (commandExists ?A ''xsel'' ([] @ [Output (checkCommand ?A ''xsel'')])) = Inr True"
    by code_simp
  have b1: "fst (commandExists ?B ''xsel'' []) \<noteq> Inr True"
    by code_simp
  have b2: "fst (commandExists ?B ''xsel'' ([] @ [Output (checkCommand ?B ''xsel'')])) \<noteq> Inr True"
    by code_simp
  from linux_entry_follows_probe[of ?A "[]"] a1 a2
  have A: "\<exists>m i. fst (getImplementations ?A []) = Inr m \<and>
      m linux = Some i \<and> readCommand i = [''xsel'', ''-b'', ''-o''] \<and>
      writeCommand i = [''xsel'', ''-b'', ''-i'']"
    by simp
  from linux_entry_follows_probe[of ?B "[]"] b1 b2
  have B: "\<exists>m i. fst (getImplementations ?B []) = Inr m \<and>
      m linux = Some i \<and> readCommand i = [''xclip'', ''-selection'', ''clipboard'', ''-o''] \<and>
      writeCommand i = [''xclip'', ''-selection'', ''clipboard'', ''-i'']"
    by simp
  from A B show ?thesis by blast
qed

section \<open>Constructing the facade\<close>

text \<open>
  C6. For each of freebsd, netbsd, aix, solaris and illumos the registry has no entry,
  whatever the probes answered, and constructing the facade fails with an
  \<^verbatim>\<open>Error\<close> whose message is \<^verbatim>\<open>Clipboard: unsupported OS: \<close> followed by the
  name of that operating system.
\<close>

theorem unsupported_os_construction_fails:
  assumes "os' \<in> {freebsd, netbsd, aix, solaris, illumos}"
  shows "\<exists>m. fst (getImplementations rt h) = Inr m \<and> m os' = None \<and>
           new_Clipboard os' m = Inl (new_Error (''Clipboard: unsupported OS: '' @ os_name os'))"
proof -
  obtain m where m: "fst (getImplementations rt h) = Inr m"
    using getImplementations_returns[of rt h] by auto
  from getImplementations_entries[OF m] assms have "m os' = None"
    by auto
  with m show ?thesis
    by (simp add: new_Clipboard_def)
qed

theorem unsupported_os_construction_fails_witness:
  "freebsd \<in> {freebsd, netbsd, aix, solaris, illumos} \<and>
   (\<exists>m. fst (getImplementations (example_host freebsd [] 0 []) []) = Inr m \<and>
      m freebsd = None \<and>
      new_Clipboard freebsd m = Inl (new_Error ''Clipboard: unsupported OS: freebsd''))"
proof -
  have h: "freebsd \<in> {freebsd, netbsd, aix, solaris, illumos}" by simp
  from unsupported_os_construction_fails[OF h, of "example_host freebsd [] 0 []" "[]"] h
  show ?thesis by simp
qed

text \<open>
  C7. For each of linux, darwin and windows, and whatever the probes answered,
  constructing the facade succeeds; the facade holds one implementation, the registry's
  entry for that operating system, and its read and write commands are not empty. No
  entry of the registry has an empty read or write command.
\<close>

theorem supported_os_binds_nonempty_commands:
  assumes "os' \<in> {linux, darwin, windows}"
  shows "\<exists>m c. fst (getImplementations rt h) = Inr m \<and>
           new_Clipboard os' m = Inr c \<and> m os' = Some (impl c) \<and>
           readCommand (impl c) \<noteq> [] \<and> writeCommand (impl c) \<noteq> [] \<and>
           (\<forall>k i. m k = Some i \<longrightarrow> readCommand i \<noteq> [] \<and> writeCommand i \<noteq> [])"
proof -
  obtain m where m: "fst (getImplementations rt h) = Inr m"
    using getImplementations_returns[of rt h] by auto
  from getImplementations_entries[OF m] obtain b1 b2 where
    e: "m = [linux \<mapsto> new_ClipboardImplementation linux
                  (if b1 then [''xsel'', ''-b'', ''-o'']
                   else [''xclip'', ''-selection'', ''clipboard'', ''-o''])
                  (if b2 then [''xsel'', ''-b'', ''-i'']
                   else [''xclip'', ''-selection'', ''clipboard'', ''-i''])
                  None,
          darwin \<mapsto> new_ClipboardImplementation darwin [''pbpaste''] [''pbcopy''] None,
          windows \<mapsto> new_ClipboardImplementation windows
                  [''powershell'', ''-noprofile'', ''-command'', ''Get-Clipboard'']
                  [''powershell'', ''-noprofile'', ''-command'', ''$input|Set-Clipboard'']
                  (Some windows_postProcess)]"
    by blast
  have all: "\<forall>k i. m k = Some i \<longrightarrow> readCommand i \<noteq> [] \<and> writeCommand i \<noteq> []"
    unfolding e by (auto simp add: new_ClipboardImplementation_def split: if_splits)
  from assms obtain i where i: "m os' = Some i"
    unfolding e by auto
  with all have "readCommand i \<noteq> []" "writeCommand i \<noteq> []"
    by blast+
  with m i all show ?thesis
    by (simp add: new_Clipboard_def)
qed

theorem supported_os_binds_nonempty_commands_witness:
  "linux \<in> {linux, darwin, windows} \<and>
   (\<exists>m c. fst (getImplementations (example_host linux [''xclip''] 0 []) []) = Inr m \<and>
      new_Clipboard linux m = Inr c \<and> m linux = Some (impl c) \<and>
      readCommand (impl c) \<noteq> [] \<and> writeCommand (impl c) \<noteq> [])"
proof -
  have h: "linux \<in> {linux, darwin, windows}" by simp
  from supported_os_binds_nonempty_commands[OF h, of "example_host linux [''xclip''] 0 []" "[]"] h
  show ?thesis by blast
qed

section \<open>Results of readText\<close>

text \<open>
  C8. When \<^verbatim>\<open>readText\<close> succeeds, the read command was run and completed, and the
  text returned is the decoding of the captured standard output, passed through the
  post-processing function when the implementation has one and returned as decoded when it
  has none. When running the read command throws, \<^verbatim>\<open>readText\<close> fails with a new
  \<^verbatim>\<open>Error\<close> whose message is \<^verbatim>\<open>Failed to read from clipboard: \<close> followed by
  the message of the thrown \<^verbatim>\<open>Error\<close>, or by the string form of any other thrown
  value.
\<close>

theorem readText_returns_decoded_stdout:
  "(\<forall>t h'. ClipboardImplementation_readText rt self h = (Inr t, h') \<longrightarrow>
      (\<exists>out. command_output rt h (readText_command self) = Inr out \<and>
         t = (case postProcess self of
                None \<Rightarrow> decoder_decode rt (stdout out)
              | Some f \<Rightarrow> f (decoder_decode rt (stdout out))))) \<and>
   (\<forall>n msg. command_output rt h (readText_command self) = Inl (Error n msg) \<longrightarrow>
      fst (ClipboardImplementation_readText rt self h) =
        Inl (new_Error (''Failed to read from clipboard: '' @ msg))) \<and>
   (\<forall>s. command_output rt h (readText_command self) = Inl (NonError s) \<longrightarrow>
      fst (ClipboardImplementation_readText rt self h) =
        Inl (new_Error (''Failed to read from clipboard: '' @ s)))"
  by (auto simp add: ClipboardImplementation_readText_def split: sum.splits option.splits)

text \<open>
  The Windows entry on a host whose PowerShell prints \<^verbatim>\<open>"a\r\n"\<close> reads
  \<^verbatim>\<open>"a"\<close>; the Darwin entry on a host without \<^verbatim>\<open>pbpaste\<close> fails with the
  prefixed message.
\<close>

theorem readText_returns_decoded_stdout_witness:
  "ClipboardImplementation_readText (example_host windows [''powershell''] 0 [0x61, 0x0D, 0x0A])
     (new_ClipboardImplementation windows
        [''powershell'', ''-noprofile'', ''-command'', ''Get-Clipboard'']
        [''powershell'', ''-noprofile'', ''-command'', ''$input|Set-Clipboard'']
        (Some windows_postProcess)) [] =
     (Inr ''a'',
      [Output \<lparr>program = Some ''powershell'', args = [''-noprofile'', ''-command'', ''Get-Clipboard''],
               opt_stdin = None, opt_stdout = Some Piped, opt_stderr = Some Piped\<rparr>]) \<and>
   (\<exists>out. command_output (example_host windows [''powershell''] 0 [0x61, 0x0D, 0x0A]) []
            (readText_command (new_ClipboardImplementation windows
               [''powershell'', ''-noprofile'', ''-command'', ''Get-Clipboard'']
               [''powershell'', ''-noprofile'', ''-command'', ''$input|Set-Clipboard'']
               (Some windows_postProcess))) = Inr out \<and>
          ''a'' = windows_postProcess
                    (decoder_decode (example_host windows [''powershell''] 0 [0x61, 0x0D, 0x0A])
                       (stdout out))) \<and>
   command_output (example_host darwin [] 0 []) []
     (readText_command (new_ClipboardImplementation darwin [''pbpaste''] [''pbcopy''] None)) =
     Inl (Error ''NotFound'' ''entity not found'') \<and>
   fst (ClipboardImplementation_readText (example_host darwin [] 0 [])
          (new_ClipboardImplementation darwin [''pbpaste''] [''pbcopy''] None) []) =
     Inl (new_Error ''Failed to read from clipboard: entity not found'')"
proof -
  let ?W = "example_host windows [''powershell''] 0 [0x61, 0x0D, 0x0A]"
  let ?wi = "new_ClipboardImplementation windows
        [''powershell'', ''-noprofile'', ''-command'', ''Get-Clipboard'']
        [''powershell'', ''-noprofile'', ''-command'', ''$input|Set-Clipboard'']
        (Some windows_postProcess)"
  let ?M = "example_host darwin [] 0 []"
  let ?mi = "new_ClipboardImplementation darwin [''pbpaste''] [''pbcopy''] None"
  have ok: "ClipboardImplementation_readText ?W ?wi [] =
     (Inr ''a'',
      [Output \<lparr>program = Some ''powershell'', args = [''-noprofile'', ''-command'', ''Get-Clipboard''],
               opt_stdin = None, opt_stdout = Some Piped, opt_stderr = Some Piped\<rparr>])"
    by code_simp
  have pp: "postProcess ?wi = Some windows_postProcess"
    by (simp add: new_ClipboardImplementation_def)
  have fails: "command_output ?M [] (readText_command ?mi) = Inl (Error ''NotFound'' ''entity not found'')"
    by code_simp
  from readText_returns_decoded_stdout[of ?W ?wi "[]"] ok pp
  have 1: "\<exists>out. command_output ?W [] (readText_command ?wi) = Inr out \<and>
          ''a'' = windows_postProcess (decoder_decode ?W (stdout out))"
    by (simp del: One_nat_def)
  from readText_returns_decoded_stdout[of ?M ?mi "[]"] fails
  have 2: "fst (ClipboardImplementation_readText ?M ?mi []) =
     Inl (new_Error ''Failed to read from clipboard: entity not found'')"
    by simp
  from ok 1 fails 2 show ?thesis by blast
qed

text \<open>
  C10. \<^verbatim>\<open>readText\<close> looks at neither the exit code nor the captured standard
  error: whenever the read command is run and completes, with any exit code and any
  standard error, \<^verbatim>\<open>readText\<close> succeeds with the decoded and post-processed
  standard output.
\<close>

theorem readText_ignores_exit_status:
  assumes "command_output rt h (readText_command self) = Inr \<lparr>code = n, stdout = out, stderr = err\<rparr>"
  shows "fst (ClipboardImplementation_readText rt self h) =
           Inr (case postProcess self of
                  None \<Rightarrow> decoder_decode rt out
                | Some f \<Rightarrow> f (decoder_decode rt out))"
  using assms
  by (simp add: ClipboardImplementation_readText_def split: option.splits)

text \<open>
  A read command that exits with code 1 and prints nothing reads the empty string.
\<close>

theorem readText_ignores_exit_status_witness:
  "command_output (example_host linux [''xclip''] 1 []) []
     (readText_command (new_ClipboardImplementation linux
        [''xclip'', ''-selection'', ''clipboard'', ''-o'']
        [''xclip'', ''-selection'', ''clipboard'', ''-i''] None)) =
     Inr \<lparr>code = 1, stdout = [], stderr = []\<rparr> \<and>
   fst (ClipboardImplementation_readText (example_host linux [''xclip''] 1 [])
          (new_ClipboardImplementation linux
             [''xclip'', ''-selection'', ''clipboard'', ''-o'']
             [''xclip'', ''-selection'', ''clipboard'', ''-i''] None) []) = Inr ''''"
proof -
  let ?H = "example_host linux [''xclip''] 1 []"
  let ?i = "new_ClipboardImplementation linux
        [''xclip'', ''-selection'', ''clipboard'', ''-o'']
        [''xclip'', ''-selection'', ''clipboard'', ''-i''] None"
  have h: "command_output ?H [] (readText_command ?i) = Inr \<lparr>code = 1, stdout = [], stderr = []\<rparr>"
    by code_simp
  have d: "(case postProcess ?i of None \<Rightarrow> decoder_decode ?H [] | Some f \<Rightarrow> f (decoder_decode ?H [])) = ''''"
    by code_simp
  from readText_ignores_exit_status[OF h] d h show ?thesis by simp
qed

section \<open>A successful writeText\<close>

text \<open>
  C9. When \<^verbatim>\<open>writeText\<close> succeeds, for every input text, the calls it made are,
  in this order: spawning the write command with a piped standard input, taking the
  writer of that pipe, one write of the whole encoding of the text, closing the writer, and
  awaiting the child's status. The result carries no value. The status the child ends with
  is not looked at: when none of the five calls throws, \<^verbatim>\<open>writeText\<close> succeeds
  for every exit code. And a success means that the runtime did all of it: the command
  was spawned, the writer taken, the write accepted, the close completed and a status
  delivered.
\<close>

theorem writeText_success_sequence:
  "(\<forall>u h'. ClipboardImplementation_writeText rt self data h = (Inr u, h') \<longrightarrow>
      h' = h @ [Spawn (writeText_command self), GetWriter, Write (encoder_encode rt data),
                Close, Status]) \<and>
   (\<forall>n. command_spawn rt h (writeText_command self) = Inr () \<and>
        stdin_getWriter rt (h @ [Spawn (writeText_command self)]) = Inr () \<and>
        writer_write rt (h @ [Spawn (writeText_command self), GetWriter])
          (encoder_encode rt data) = Inr () \<and>
        writer_close rt (h @ [Spawn (writeText_command self), GetWriter,
          Write (encoder_encode rt data)]) = Inr () \<and>
        child_status rt (h @ [Spawn (writeText_command self), GetWriter,
          Write (encoder_encode rt data), Close]) = Inr n \<longrightarrow>
      ClipboardImplementation_writeText rt self data h =
        (Inr (), h @ [Spawn (writeText_command self), GetWriter, Write (encoder_encode rt data),
                      Close, Status])) \<and>
   (\<forall>u. fst (ClipboardImplementation_writeText rt self data h) = Inr u \<longrightarrow>
      command_spawn rt h (writeText_command self) = Inr () \<and>
      stdin_getWriter rt (h @ [Spawn (writeText_command self)]) = Inr () \<and>
      writer_write rt (h @ [Spawn (writeText_command self), GetWriter])
        (encoder_encode rt data) = Inr () \<and>
      writer_close rt (h @ [Spawn (writeText_command self), GetWriter,
        Write (encoder_encode rt data)]) = Inr () \<and>
      (\<exists>n. child_status rt (h @ [Spawn (writeText_command self), GetWriter,
        Write (encoder_encode rt data), Close]) = Inr n))"
proof -
  have seq: "\<forall>u h'. ClipboardImplementation_writeText rt self data h = (Inr u, h') \<longrightarrow>
      h' = h @ [Spawn (writeText_command self), GetWriter, Write (encoder_encode rt data),
                Close, Status]"
  proof (cases "writeText_try rt self data h")
    case (Pair r h')
    then show ?thesis
      using writeText_try_history[of rt self data h _ h']
      by (cases r) (auto simp add: ClipboardImplementation_writeText_def)
  qed
  have ok: "\<forall>n. command_spawn rt h (writeText_command self) = Inr () \<and>
        stdin_getWriter rt (h @ [Spawn (writeText_command self)]) = Inr () \<and>
        writer_write rt (h @ [Spawn (writeText_command self), GetWriter])
          (encoder_encode rt data) = Inr () \<and>
        writer_close rt (h @ [Spawn (writeText_command self), GetWriter,
          Write (encoder_encode rt data)]) = Inr () \<and>
        child_status rt (h @ [Spawn (writeText_command self), GetWriter,
          Write (encoder_encode rt data), Close]) = Inr n \<longrightarrow>
      ClipboardImplementation_writeText rt self data h =
        (Inr (), h @ [Spawn (writeText_command self), GetWriter, Write (encoder_encode rt data),
                      Close, Status])"
    by (simp add: ClipboardImplementation_writeText_def writeText_try_def Let_def)
  have needs: "\<forall>u. fst (ClipboardImplementation_writeText rt self data h) = Inr u \<longrightarrow>
      command_spawn rt h (writeText_command self) = Inr () \<and>
      stdin_getWriter rt (h @ [Spawn (writeText_command self)]) = Inr () \<and>
      writer_write rt (h @ [Spawn (writeText_command self), GetWriter])
        (encoder_encode rt data) = Inr () \<and>
      writer_close rt (h @ [Spawn (writeText_command self), GetWriter,
        Write (encoder_encode rt data)]) = Inr () \<and>
      (\<exists>n. child_status rt (h @ [Spawn (writeText_command self), GetWriter,
        Write (encoder_encode rt data), Close]) = Inr n)"
    by (simp add: writeText_result writeText_try_failures Let_def split: sum.splits)
  from seq ok needs show ?thesis by blast
qed

text \<open>
  The Darwin entry on a host whose \<^verbatim>\<open>pbcopy\<close> exits with code 1: the write of
  \<^verbatim>\<open>"hi"\<close> succeeds after the five calls. On a host that rejects the close, the
  write does not succeed.
\<close>

theorem writeText_success_sequence_witness:
  "ClipboardImplementation_writeText (example_host darwin [''pbcopy''] 1 [])
     (new_ClipboardImplementation darwin [''pbpaste''] [''pbcopy''] None) ''hi'' [] =
     (Inr (),
      [Spawn \<lparr>program = Some ''pbcopy'', args = [], opt_stdin = Some Piped, opt_stdout = None,
              opt_stderr = Some Piped\<rparr>,
       GetWriter, Write [0x68, 0x69], Close, Status]) \<and>
   child_status (example_host darwin [''pbcopy''] 1 [])
     [Spawn \<lparr>program = Some ''pbcopy'', args = [], opt_stdin = Some Piped, opt_stdout = None,
             opt_stderr = Some Piped\<rparr>,
      GetWriter, Write [0x68, 0x69], Close] = Inr 1 \<and>
   writer_close
     ((example_host darwin [''pbcopy''] 0 [])
        \<lparr>writer_close := \<lambda>h. Inl (Error ''BrokenPipe'' ''close failed'')\<rparr>)
     [Spawn \<lparr>program = Some ''pbcopy'', args = [], opt_stdin = Some Piped, opt_stdout = None,
             opt_stderr = Some Piped\<rparr>,
      GetWriter, Write [0x68, 0x69]] \<noteq> Inr () \<and>
   fst (ClipboardImplementation_writeText
          ((example_host darwin [''pbcopy''] 0 [])
             \<lparr>writer_close := \<lambda>h. Inl (Error ''BrokenPipe'' ''close failed'')\<rparr>)
          (new_ClipboardImplementation darwin [''pbpaste''] [''pbcopy''] None) ''hi'' []) \<noteq> Inr ()"
proof -
  let ?H = "example_host darwin [''pbcopy''] 1 []"
  let ?C = "(example_host darwin [''pbcopy''] 0 [])
             \<lparr>writer_close := \<lambda>h. Inl (Error ''BrokenPipe'' ''close failed'')\<rparr>"
  let ?i = "new_ClipboardImplementation darwin [''pbpaste''] [''pbcopy''] None"
  have c: "writeText_command ?i =
     \<lparr>program = Some ''pbcopy'', args = [], opt_stdin = Some Piped, opt_stdout = None,
      opt_stderr = Some Piped\<rparr>"
    by (simp add: writeText_command_def new_ClipboardImplementation_def)
  have b: "encoder_encode ?H ''hi'' = [0x68, 0x69]"
    by (simp add: example_host_def)
  have steps: "command_spawn ?H [] (writeText_command ?i) = Inr () \<and>
        stdin_getWriter ?H ([] @ [Spawn (writeText_command ?i)]) = Inr () \<and>
        writer_write ?H ([] @ [Spawn (writeText_command ?i), GetWriter])
          (encoder_encode ?H ''hi'') = Inr () \<and>
        writer_close ?H ([] @ [Spawn (writeText_command ?i), GetWriter,
          Write (encoder_encode ?H ''hi'')]) = Inr () \<and>
        child_status ?H ([] @ [Spawn (writeText_command ?i), GetWriter,
          Write (encoder_encode ?H ''hi''), Close]) = Inr 1"
    by (simp add: example_host_def example_spawn_def c)
  from writeText_success_sequence[of ?H ?i "''hi''" "[]"] steps
  have "ClipboardImplementation_writeText ?H ?i ''hi'' [] =
        (Inr (), [] @ [Spawn (writeText_command ?i), GetWriter, Write (encoder_encode ?H ''hi''),
                      Close, Status])"
    by blast
  with steps have 1: "ClipboardImplementation_writeText ?H ?i ''hi'' [] =
     (Inr (),
      [Spawn \<lparr>program = Some ''pbcopy'', args = [], opt_stdin = Some Piped, opt_stdout = None,
              opt_stderr = Some Piped\<rparr>,
       GetWriter, Write [0x68, 0x69], Close, Status]) \<and>
   child_status ?H
     [Spawn \<lparr>program = Some ''pbcopy'', args = [], opt_stdin = Some Piped, opt_stdout = None,
             opt_stderr = Some Piped\<rparr>,
      GetWriter, Write [0x68, 0x69], Close] = Inr 1"
    by (simp add: c b)
  have rejects: "writer_close ?C ([] @ [Spawn (writeText_command ?i), GetWriter,
          Write (encoder_encode ?C ''hi'')]) \<noteq> Inr ()"
    by simp
  from writeText_success_sequence[of ?C ?i "''hi''" "[]"] rejects
  have 2: "fst (ClipboardImplementation_writeText ?C ?i ''hi'' []) \<noteq> Inr ()"
    by blast
  from rejects have 3: "writer_close ?C
     [Spawn \<lparr>program = Some ''pbcopy'', args = [], opt_stdin = Some Piped, opt_stdout = None,
             opt_stderr = Some Piped\<rparr>,
      GetWriter, Write [0x68, 0x69]] \<noteq> Inr ()"
    by simp
  from 1 2 3 show ?thesis by blast
qed

end
